theory Spec2Isabelle
  imports Complex_Main
begin

section \<open>Numbers, strings and errors\<close>

text \<open>
  The columns of the data frames hold IEEE doubles. A cell is modelled by its value: a
  finite number, one of the two infinities, or NaN. Finite arithmetic is taken exactly
  (over the reals): rounding and overflow are not modelled. What is modelled is
  everything the pipeline's control flow depends on: a division by zero gives an
  infinity or NaN and raises nothing (numpy and pandas warn at most), NaN compares false
  with everything, and the reductions of pandas skip NaN.
\<close>

datatype np_float = Fin real | PInf | NInf | NaN

datatype py_error = DataValidationError | ValueError

fun is_nan :: "np_float \<Rightarrow> bool" where
  "is_nan NaN = True"
| "is_nan _ = False"

fun fneg :: "np_float \<Rightarrow> np_float" where
  "fneg (Fin x) = Fin (- x)"
| "fneg PInf = NInf"
| "fneg NInf = PInf"
| "fneg NaN = NaN"

fun fabs :: "np_float \<Rightarrow> np_float" where
  "fabs (Fin x) = Fin \<bar>x\<bar>"
| "fabs PInf = PInf"
| "fabs NInf = PInf"
| "fabs NaN = NaN"

fun fadd :: "np_float \<Rightarrow> np_float \<Rightarrow> np_float" where
  "fadd (Fin x) (Fin y) = Fin (x + y)"
| "fadd NaN _ = NaN"
| "fadd _ NaN = NaN"
| "fadd PInf NInf = NaN"
| "fadd NInf PInf = NaN"
| "fadd PInf _ = PInf"
| "fadd NInf _ = NInf"
| "fadd _ PInf = PInf"
| "fadd _ NInf = NInf"

definition fsub :: "np_float \<Rightarrow> np_float \<Rightarrow> np_float" where
  "fsub a b = fadd a (fneg b)"

text \<open>The sign of a cell, as an integer; NaN has none and is handled before it is asked.\<close>

fun fsign :: "np_float \<Rightarrow> int" where
  "fsign (Fin x) = (if x < 0 then - 1 else if x = 0 then 0 else 1)"
| "fsign PInf = 1"
| "fsign NInf = - 1"
| "fsign NaN = 0"

definition inf_of_sign :: "int \<Rightarrow> np_float" where
  "inf_of_sign s = (if s = 0 then NaN else if s < 0 then NInf else PInf)"

fun fmul :: "np_float \<Rightarrow> np_float \<Rightarrow> np_float" where
  "fmul (Fin x) (Fin y) = Fin (x * y)"
| "fmul NaN _ = NaN"
| "fmul _ NaN = NaN"
| "fmul a b = inf_of_sign (fsign a * fsign b)"

text \<open>
  Division. A zero divisor gives NaN for a zero dividend and an infinity otherwise. The
  model has one zero, taken as \<open>+0\<close>: every quotient of the pipeline is wrapped in
  \<open>abs\<close>, which removes the only thing the sign of a zero divisor decides.
\<close>

fun fdiv :: "np_float \<Rightarrow> np_float \<Rightarrow> np_float" where
  "fdiv NaN _ = NaN"
| "fdiv _ NaN = NaN"
| "fdiv (Fin x) (Fin y) = (if y = 0 then inf_of_sign (fsign (Fin x)) else Fin (x / y))"
| "fdiv (Fin x) _ = Fin 0"
| "fdiv a (Fin y) = inf_of_sign (fsign a * (if y < 0 then - 1 else 1))"
| "fdiv _ _ = NaN"

text \<open>Comparisons: false as soon as one side is NaN.\<close>

fun flt :: "np_float \<Rightarrow> np_float \<Rightarrow> bool" where
  "flt NaN _ = False"
| "flt _ NaN = False"
| "flt (Fin x) (Fin y) = (x < y)"
| "flt NInf NInf = False"
| "flt NInf _ = True"
| "flt _ NInf = False"
| "flt PInf _ = False"
| "flt _ PInf = True"

fun feq :: "np_float \<Rightarrow> np_float \<Rightarrow> bool" where
  "feq NaN _ = False"
| "feq _ NaN = False"
| "feq a b = (a = b)"

definition fge :: "np_float \<Rightarrow> np_float \<Rightarrow> bool" where
  "fge a b = (flt b a \<or> feq a b)"

text \<open>
  The reductions \<open>min\<close>, \<open>max\<close> and \<open>mean\<close> of pandas, along a column or along a row
  (\<open>axis=1\<close>), with the default \<open>skipna=True\<close>: NaN cells are skipped, and the result is
  NaN when nothing is left.
\<close>

fun nanmin2 :: "np_float \<Rightarrow> np_float \<Rightarrow> np_float" where
  "nanmin2 NaN b = b"
| "nanmin2 a NaN = a"
| "nanmin2 a b = (if flt b a then b else a)"

fun nanmax2 :: "np_float \<Rightarrow> np_float \<Rightarrow> np_float" where
  "nanmax2 NaN b = b"
| "nanmax2 a NaN = a"
| "nanmax2 a b = (if flt a b then b else a)"

definition pd_min :: "np_float list \<Rightarrow> np_float" where
  "pd_min xs = foldr nanmin2 xs NaN"

definition pd_max :: "np_float list \<Rightarrow> np_float" where
  "pd_max xs = foldr nanmax2 xs NaN"




text \<open>
  \<open>np.select(condlist, choicelist, default)\<close> at one row: the choice of the first
  condition that holds, the default when none does.
\<close>

fun np_select :: "bool list \<Rightarrow> 'a list \<Rightarrow> 'a \<Rightarrow> 'a" where
  "np_select (c # cs) (v # vs) d = (if c then v else np_select cs vs d)"
| "np_select _ _ d = d"

section \<open>Configuration (config.py)\<close>

record ComplianceLimits =
  bod_upper :: real
  bod_lower :: real
  cod_upper :: real
  cod_lower :: real
  bod_pc :: real
  cod_pc :: real

definition ComplianceLimits_default :: ComplianceLimits where
  "ComplianceLimits_default =
     \<lparr>bod_upper = 50, bod_lower = 25, cod_upper = 250, cod_lower = 125,
      bod_pc = 7 / 10, cod_pc = 75 / 100\<rparr>"

definition TIME_STEP :: real where
  "TIME_STEP = 8 / 100"

definition HOURS_PER_DAY :: real where
  "HOURS_PER_DAY = 24"

definition MINUTES_PER_HOUR :: real where
  "MINUTES_PER_HOUR = 60"

section \<open>Recovery times (analysis/recovery.py)\<close>

text \<open>
  Python's \<open>round(x, 2)\<close> on a finite float: the nearest multiple of 1/100, a tie going
  to the even one.
\<close>

definition round_half_even :: "real \<Rightarrow> int" where
  "round_half_even x =
     (let f = \<lfloor>x\<rfloor>; d = x - of_int f
      in if d < 1 / 2 then f
         else if 1 / 2 < d then f + 1
         else if even f then f else f + 1)"

definition py_round2 :: "real \<Rightarrow> real" where
  "py_round2 x = of_int (round_half_even (x * 100)) / 100"

definition default_failure_types :: "string list" where
  "default_failure_types = [''Max Limit Failure'', ''LUT exceedance'']"

text \<open>
  The \<open>for\<close> loop of \<open>compute_recovery_time\<close>, with its three variables
  \<open>recovery_times\<close>, \<open>non_compliance_duration\<close> and \<open>in_non_compliance\<close> passed along.
\<close>

fun recovery_loop ::
  "string list \<Rightarrow> real \<Rightarrow> string list \<Rightarrow> real list \<Rightarrow> nat \<Rightarrow> bool
     \<Rightarrow> real list \<times> nat \<times> bool" where
  "recovery_loop [] time_step failure_types recovery_times duration in_nc =
     (recovery_times, duration, in_nc)"
| "recovery_loop (failure_type # rest) time_step failure_types recovery_times duration in_nc =
     (if List.member failure_types failure_type
      then recovery_loop rest time_step failure_types recovery_times (duration + 1) True
      else if in_nc
      then recovery_loop rest time_step failure_types
             (recovery_times @ [py_round2 (of_nat duration * time_step)]) 0 False
      else recovery_loop rest time_step failure_types recovery_times duration in_nc)"

definition compute_recovery_time ::
  "string list \<Rightarrow> real option \<Rightarrow> string list \<Rightarrow> real list" where
  "compute_recovery_time series time_step failure_types =
     (let ts = (case time_step of None \<Rightarrow> TIME_STEP | Some t \<Rightarrow> t)
      in case recovery_loop series ts failure_types [] 0 False of
           (recovery_times, duration, in_nc) \<Rightarrow>
             if in_nc then recovery_times @ [py_round2 (of_nat duration * ts)]
             else recovery_times)"

definition compute_recovery_time_minutes :: "string list \<Rightarrow> real option \<Rightarrow> real list" where
  "compute_recovery_time_minutes series time_step =
     (let ts = (case time_step of None \<Rightarrow> TIME_STEP | Some t \<Rightarrow> t);
          recovery_times = compute_recovery_time series (Some ts) default_failure_types
      in map (\<lambda>time. time * HOURS_PER_DAY * MINUTES_PER_HOUR) recovery_times)"

definition compute_mean_recovery_time :: "string list \<Rightarrow> real option \<Rightarrow> bool \<Rightarrow> real" where
  "compute_mean_recovery_time series time_step convert_to_minutes =
     (let times = (if convert_to_minutes
                   then compute_recovery_time_minutes series time_step
                   else compute_recovery_time series time_step default_failure_types)
      in if times = [] then 0 else sum_list times / of_nat (length times))"

section \<open>Data frames\<close>

text \<open>
  A data frame is the list of its rows, in time order. Every stage of the pipeline
  copies its input and adds columns, so each stage has its own row type, the row type of
  the stage before it extended by the new columns in the order of
  \<open>process_dataframe\<close>; reading a column that an earlier stage has not yet added is
  excluded by the types (in the source it is a \<open>KeyError\<close>). The columns
  \<open>'BODut-BODeffl'\<close>, \<open>'CODut-CODeffl'\<close>, \<open>'BODlt-BODeffl'\<close> and \<open>'CODlt-CODeffl'\<close> are
  written with an underscore.
\<close>

record raw_row =
  bod1 :: np_float
  cod1 :: np_float
  bod31 :: np_float
  cod31 :: np_float
  snh1 :: np_float
  snh31 :: np_float

record bod_limits_row = raw_row +
  BODut :: np_float
  BODlt :: np_float

record cod_limits_row = bod_limits_row +
  CODut :: np_float
  CODlt :: np_float

record lin_bod_row = cod_limits_row +
  LIN_BODe :: np_float
  LIN_BODi :: np_float

record lin_cod_row = lin_bod_row +
  LIN_CODe :: np_float
  LIN_CODi :: np_float

record deviation_row = lin_cod_row +
  BODut_BODeffl :: np_float
  CODut_CODeffl :: np_float
  BODlt_BODeffl :: np_float
  CODlt_CODeffl :: np_float

record reduction_row = deviation_row +
  bodp :: np_float
  codp :: np_float

record flag_row = reduction_row +
  flag_BODlt :: bool
  flag_BODut :: bool
  flag_CODlt :: bool
  flag_reduction_bod :: bool
  flag_reduction_cod :: bool
  flag_CODut :: bool

record psi_row = flag_row +
  bod_psi_1_min :: np_float
  bod_psi_1 :: np_float
  bod_psi_2 :: np_float
  bod_psi_3 :: np_float
  cod_psi_1_min :: np_float
  cod_psi_1 :: np_float
  cod_psi_2 :: np_float
  cod_psi_3 :: np_float

record metric_row = psi_row +
  metric_lut :: np_float
  metric_max :: np_float

record failure_row = metric_row +
  metric :: np_float
  fail_type :: string
  fail_source :: string
  bod_lut_exc :: bool
  bod_max_lim :: bool
  cod_lut_exc :: bool
  cod_max_lim :: bool
  c_BOD_2 :: bool
  c_BOD_3 :: bool

section \<open>Validation (data/validators.py)\<close>

text \<open>
  \<open>validate_dataframe\<close> raises on \<open>None\<close>, on an empty frame unless \<open>allow_empty\<close>, and
  on a missing required column. A frame of \<^typ>\<open>raw_row\<close> is not \<open>None\<close> and has the
  six required columns, which leaves the emptiness check.
\<close>

definition validate_dataframe :: "raw_row list \<Rightarrow> bool \<Rightarrow> py_error + bool" where
  "validate_dataframe df allow_empty =
     (if \<not> allow_empty \<and> df = [] then Inl DataValidationError else Inr True)"

section \<open>Limits and flags (core/compliance.py)\<close>

text \<open>
  A vectorised assignment is the same row operation on every row. Where the source
  reduces a whole column first (\<open>df["bod31"].min()\<close>, \<open>df["bod1"].max()\<close>), the row
  operation takes the reduced values as arguments, and the frame operation computes them
  from its input frame and broadcasts them.
\<close>

definition calculate_bod_limits_row ::
  "np_float \<Rightarrow> np_float \<Rightarrow> ComplianceLimits \<Rightarrow> raw_row \<Rightarrow> bod_limits_row" where
  "calculate_bod_limits_row bod31_min bod1_max limits r =
     raw_row.extend r (bod_limits_row.fields
       (fabs (fdiv (fsub (Fin (bod_upper limits)) bod31_min) (fsub bod1_max bod31_min)))
       (fabs (fdiv (fsub (Fin (bod_lower limits)) bod31_min) (fsub bod1_max bod31_min))))"

definition calculate_bod_limits :: "raw_row list \<Rightarrow> ComplianceLimits \<Rightarrow> bod_limits_row list" where
  "calculate_bod_limits df limits =
     map (calculate_bod_limits_row (pd_min (map bod31 df)) (pd_max (map bod1 df)) limits) df"

definition calculate_cod_limits_row ::
  "np_float \<Rightarrow> np_float \<Rightarrow> ComplianceLimits \<Rightarrow> bod_limits_row \<Rightarrow> cod_limits_row" where
  "calculate_cod_limits_row cod31_min cod1_max limits r =
     bod_limits_row.extend r (cod_limits_row.fields
       (fabs (fdiv (fsub (Fin (cod_upper limits)) cod31_min) (fsub cod1_max cod31_min)))
       (fabs (fdiv (fsub (Fin (cod_lower limits)) cod31_min) (fsub cod1_max cod31_min))))"

definition calculate_cod_limits ::
  "bod_limits_row list \<Rightarrow> ComplianceLimits \<Rightarrow> cod_limits_row list" where
  "calculate_cod_limits df limits =
     map (calculate_cod_limits_row (pd_min (map cod31 df)) (pd_max (map cod1 df)) limits) df"

definition calculate_all_limits ::
  "raw_row list \<Rightarrow> ComplianceLimits option \<Rightarrow> cod_limits_row list" where
  "calculate_all_limits df limits =
     (let limits = (case limits of None \<Rightarrow> ComplianceLimits_default | Some l \<Rightarrow> l)
      in calculate_cod_limits (calculate_bod_limits df limits) limits)"

definition calculate_flag_conditions_row :: "reduction_row \<Rightarrow> flag_row" where
  "calculate_flag_conditions_row r =
     reduction_row.extend r (flag_row.fields
       (fge (BODlt_BODeffl r) (Fin 0))
       (fge (BODut_BODeffl r) (Fin 0))
       (fge (CODlt_CODeffl r) (Fin 0))
       (fge (bodp r) (Fin 0))
       (fge (codp r) (Fin 0))
       (fge (CODut_CODeffl r) (Fin 0)))"

definition calculate_flag_conditions :: "reduction_row list \<Rightarrow> flag_row list" where
  "calculate_flag_conditions df = map calculate_flag_conditions_row df"

text \<open>
  \<open>calculate_failure_conditions\<close> returns a dictionary of four boolean series; at one
  row, four booleans under the dictionary's keys.
\<close>

record failure_conditions =
  fc_bod_lut_exc :: bool
  fc_bod_max_lim :: bool
  fc_cod_lut_exc :: bool
  fc_cod_max_lim :: bool

definition calculate_failure_conditions_row :: "'a psi_row_scheme \<Rightarrow> failure_conditions" where
  "calculate_failure_conditions_row df =
     \<lparr>fc_bod_lut_exc =
        (flt (bod_psi_2 df) (Fin 0) \<and> flag_BODlt df = False
         \<and> flag_reduction_bod df = False \<and> flag_BODut df = True),
      fc_bod_max_lim =
        (flt (bod_psi_3 df) (Fin 0) \<and> flag_BODlt df = False
         \<and> flag_BODut df = False \<and> flag_reduction_bod df = False),
      fc_cod_lut_exc =
        (flt (cod_psi_2 df) (Fin 0) \<and> flag_CODlt df = False
         \<and> flag_reduction_cod df = False \<and> flag_CODut df = True),
      fc_cod_max_lim =
        (flt (cod_psi_3 df) (Fin 0) \<and> flag_CODlt df = False
         \<and> flag_CODut df = False \<and> flag_reduction_cod df = False)\<rparr>"

definition calculate_failure_conditions :: "'a psi_row_scheme list \<Rightarrow> failure_conditions list" where
  "calculate_failure_conditions df = map calculate_failure_conditions_row df"

section \<open>Linearisation, deviations and reductions (core/linearisation.py)\<close>

definition linearise_bod_row :: "np_float \<Rightarrow> np_float \<Rightarrow> cod_limits_row \<Rightarrow> lin_bod_row" where
  "linearise_bod_row bod31_min bod1_max r =
     cod_limits_row.extend r (lin_bod_row.fields
       (fabs (fdiv (fsub (bod31 r) bod31_min) (fsub bod1_max bod31_min)))
       (fabs (fdiv (fsub (bod1 r) bod31_min) (fsub bod1_max bod31_min))))"

definition linearise_bod :: "cod_limits_row list \<Rightarrow> lin_bod_row list" where
  "linearise_bod df =
     map (linearise_bod_row (pd_min (map bod31 df)) (pd_max (map bod1 df))) df"

definition linearise_cod_row :: "np_float \<Rightarrow> np_float \<Rightarrow> lin_bod_row \<Rightarrow> lin_cod_row" where
  "linearise_cod_row cod31_min cod1_max r =
     lin_bod_row.extend r (lin_cod_row.fields
       (fabs (fdiv (fsub (cod31 r) cod31_min) (fsub cod1_max cod31_min)))
       (fabs (fdiv (fsub (cod1 r) cod31_min) (fsub cod1_max cod31_min))))"

definition linearise_cod :: "lin_bod_row list \<Rightarrow> lin_cod_row list" where
  "linearise_cod df =
     map (linearise_cod_row (pd_min (map cod31 df)) (pd_max (map cod1 df))) df"

definition apply_linearisation :: "cod_limits_row list \<Rightarrow> lin_cod_row list" where
  "apply_linearisation df = linearise_cod (linearise_bod df)"

definition calculate_deviation_columns_row :: "lin_cod_row \<Rightarrow> deviation_row" where
  "calculate_deviation_columns_row r =
     lin_cod_row.extend r (deviation_row.fields
       (fsub (BODut r) (LIN_BODe r))
       (fsub (CODut r) (LIN_CODe r))
       (fsub (BODlt r) (LIN_BODe r))
       (fsub (CODlt r) (LIN_CODe r)))"

definition calculate_deviation_columns :: "lin_cod_row list \<Rightarrow> deviation_row list" where
  "calculate_deviation_columns df = map calculate_deviation_columns_row df"

definition calculate_reduction_columns_row :: "real \<Rightarrow> real \<Rightarrow> deviation_row \<Rightarrow> reduction_row" where
  "calculate_reduction_columns_row bod_pc' cod_pc' r =
     deviation_row.extend r (reduction_row.fields
       (fsub (fadd (fneg (fmul (Fin bod_pc') (LIN_BODi r))) (LIN_BODi r)) (LIN_BODe r))
       (fsub (fadd (fneg (fmul (Fin cod_pc') (LIN_CODi r))) (LIN_CODi r)) (LIN_CODe r)))"

definition calculate_reduction_columns ::
  "deviation_row list \<Rightarrow> real \<Rightarrow> real \<Rightarrow> reduction_row list" where
  "calculate_reduction_columns df bod_pc' cod_pc' =
     map (calculate_reduction_columns_row bod_pc' cod_pc') df"

section \<open>Severity, metric and failure type (core/metrics.py)\<close>

definition calculate_psi_values_row :: "flag_row \<Rightarrow> psi_row" where
  "calculate_psi_values_row r =
     (let bod_psi_1_min' = pd_min [BODlt_BODeffl r, bodp r];
          cod_psi_1_min' = pd_min [CODlt_CODeffl r, codp r]
      in flag_row.extend r (psi_row.fields
           bod_psi_1_min'
           (pd_max [BODlt_BODeffl r, bod_psi_1_min'])
           (pd_min [BODlt_BODeffl r, bodp r, BODut_BODeffl r])
           (pd_min [BODut_BODeffl r, bodp r])
           cod_psi_1_min'
           (pd_max [CODlt_CODeffl r, cod_psi_1_min'])
           (pd_min [CODlt_CODeffl r, codp r, CODut_CODeffl r])
           (pd_min [CODut_CODeffl r, codp r])))"

definition calculate_psi_values :: "flag_row list \<Rightarrow> psi_row list" where
  "calculate_psi_values df = map calculate_psi_values_row df"

definition calculate_metric_values_row :: "psi_row \<Rightarrow> metric_row" where
  "calculate_metric_values_row r =
     psi_row.extend r (metric_row.fields
       (pd_min [bod_psi_2 r, cod_psi_2 r])
       (pd_min [bod_psi_3 r, cod_psi_3 r]))"

definition calculate_metric_values :: "psi_row list \<Rightarrow> metric_row list" where
  "calculate_metric_values df = map calculate_metric_values_row df"

definition fail_type_values :: "string list" where
  "fail_type_values =
     [''LUT exceedance'', ''Max Limit Failure'', ''LUT exceedance'', ''Max Limit Failure'']"

definition determine_failure_type_row :: "metric_row \<Rightarrow> failure_row" where
  "determine_failure_type_row r =
     (let bod_lut_exc' =
            (flt (bod_psi_2 r) (Fin 0) \<and> flag_BODlt r = False
             \<and> flag_reduction_bod r = False \<and> flag_BODut r = True);
          bod_max_lim' =
            (flt (bod_psi_3 r) (Fin 0) \<and> flag_BODlt r = False
             \<and> flag_BODut r = False \<and> flag_reduction_bod r = False);
          cod_lut_exc' =
            (flt (cod_psi_2 r) (Fin 0) \<and> flag_CODlt r = False
             \<and> flag_reduction_cod r = False \<and> flag_CODut r = True);
          cod_max_lim' =
            (flt (cod_psi_3 r) (Fin 0) \<and> flag_CODlt r = False
             \<and> flag_CODut r = False \<and> flag_reduction_cod r = False);
          condition_2 = (bod_lut_exc' \<or> cod_lut_exc');
          condition_3 = (bod_max_lim' \<or> cod_max_lim');
          cond_lut = (condition_2 \<and> \<not> condition_3);
          cond_max = (condition_2 \<and> condition_3);
          choices = [metric_lut r, metric_max r];
          default_val = pd_max [bod_psi_1 r, cod_psi_1 r]
      in metric_row.extend r (failure_row.fields
           (np_select [cond_lut, cond_max] choices default_val)
           (np_select [bod_lut_exc', bod_max_lim', cod_lut_exc', cod_max_lim']
              fail_type_values ''Compliant'')
           (np_select [bod_lut_exc' \<or> bod_max_lim', cod_lut_exc' \<or> cod_max_lim']
              [''BOD'', ''COD''] ''None'')
           bod_lut_exc' bod_max_lim' cod_lut_exc' cod_max_lim'
           (flt (bod_psi_2 r) (cod_psi_2 r))
           (flt (bod_psi_3 r) (cod_psi_3 r))))"

definition determine_failure_type :: "metric_row list \<Rightarrow> failure_row list" where
  "determine_failure_type df = map determine_failure_type_row df"

definition process_dataframe ::
  "raw_row list \<Rightarrow> ComplianceLimits option \<Rightarrow> py_error + failure_row list" where
  "process_dataframe df limits =
     (let limits = (case limits of None \<Rightarrow> ComplianceLimits_default | Some l \<Rightarrow> l)
      in case validate_dataframe df False of
           Inl e \<Rightarrow> Inl e
         | Inr _ \<Rightarrow>
             Inr (determine_failure_type (calculate_metric_values (calculate_psi_values
                   (calculate_flag_conditions
                     (calculate_reduction_columns
                       (calculate_deviation_columns
                         (apply_linearisation (calculate_all_limits df (Some limits))))
                       (bod_pc limits) (cod_pc limits)))))))"

section \<open>Non-stationarity score (analysis/nonstationarity.py)\<close>







section \<open>Three data sets\<close>

text \<open>
  Two rows under the default limits. The influent maxima are 100 and 1000 and the effluent
  minima 0, so the normalised limits are 1/2 and 1/4 for BOD, 1/4 and 1/8 for COD. In
  the first row the BOD effluent lies between its two limits and the COD effluent above
  both of its limits.
\<close>

definition example_df :: "raw_row list" where
  "example_df =
     [\<lparr>bod1 = Fin 50, cod1 = Fin 400, bod31 = Fin 30, cod31 = Fin 300,
       snh1 = Fin 10, snh31 = Fin 5\<rparr>,
      \<lparr>bod1 = Fin 100, cod1 = Fin 1000, bod31 = Fin 0, cod31 = Fin 0,
       snh1 = Fin 10, snh31 = Fin 5\<rparr>]"

definition example_processed :: "failure_row list" where
  "example_processed = projr (process_dataframe example_df None)"

text \<open>
  Two rows with no dynamic range: the largest influent equals the smallest effluent, 10
  for BOD and 40 for COD.
\<close>

definition degenerate_df :: "raw_row list" where
  "degenerate_df =
     [\<lparr>bod1 = Fin 10, cod1 = Fin 40, bod31 = Fin 10, cod31 = Fin 40,
       snh1 = Fin 10, snh31 = Fin 5\<rparr>,
      \<lparr>bod1 = Fin 5, cod1 = Fin 20, bod31 = Fin 20, cod31 = Fin 80,
       snh1 = Fin 10, snh31 = Fin 5\<rparr>]"

definition degenerate_processed :: "failure_row list" where
  "degenerate_processed = projr (process_dataframe degenerate_df None)"

text \<open>
  Four rows under the default limits, with the same influent maxima and effluent minima
  as in the first data set (normalised limits 1/2 and 1/4 for BOD, 1/4 and 1/8 for COD).
  Row 0 has a BOD LUT exceedance only, row 1 a BOD LUT exceedance and a COD max-limit
  failure, row 2 a COD max-limit failure only, and row 3 is compliant.
\<close>

definition selection_df :: "raw_row list" where
  "selection_df =
     [\<lparr>bod1 = Fin 90, cod1 = Fin 800, bod31 = Fin 40, cod31 = Fin 100,
       snh1 = Fin 10, snh31 = Fin 5\<rparr>,
      \<lparr>bod1 = Fin 90, cod1 = Fin 800, bod31 = Fin 40, cod31 = Fin 300,
       snh1 = Fin 10, snh31 = Fin 5\<rparr>,
      \<lparr>bod1 = Fin 90, cod1 = Fin 800, bod31 = Fin 10, cod31 = Fin 300,
       snh1 = Fin 10, snh31 = Fin 5\<rparr>,
      \<lparr>bod1 = Fin 100, cod1 = Fin 1000, bod31 = Fin 0, cod31 = Fin 0,
       snh1 = Fin 10, snh31 = Fin 5\<rparr>]"

definition selection_processed :: "failure_row list" where
  "selection_processed = projr (process_dataframe selection_df None)"

section \<open>Recovery times: results\<close>

lemma recovery_loop_no_failure:
  "\<forall>x \<in> set series. x \<notin> set failure_types \<Longrightarrow>
   recovery_loop series ts failure_types [] 0 False = ([], 0, False)"
  by (induction series) simp_all




text \<open>
  C7. A series none of whose values is a failure type has no recovery time, and its mean
  recovery time is 0.0, in minutes or not: the empty case is a result, not an error.
\<close>

theorem all_compliant_no_recovery:
  assumes "\<forall>x \<in> set series. x \<notin> set default_failure_types"
  shows "compute_recovery_time series time_step default_failure_types = []
         \<and> compute_mean_recovery_time series time_step convert_to_minutes = 0"
proof -
  have loop: "recovery_loop series ts default_failure_types [] 0 False = ([], 0, False)" for ts
    using assms by (rule recovery_loop_no_failure)
  have none: "compute_recovery_time series t default_failure_types = []" for t
    by (simp add: compute_recovery_time_def loop)
  show ?thesis
    by (simp add: none compute_mean_recovery_time_def compute_recovery_time_minutes_def)
qed

theorem all_compliant_no_recovery_witness:
  "compute_recovery_time [''Compliant'', ''Compliant'', ''Compliant''] (Some 1)
     default_failure_types = []
   \<and> compute_mean_recovery_time [''Compliant'', ''Compliant'', ''Compliant''] (Some 1) True = 0"
proof -
  have h: "\<forall>x \<in> set [''Compliant'', ''Compliant'', ''Compliant'']. x \<notin> set default_failure_types"
    by (simp add: default_failure_types_def)
  show ?thesis
    using all_compliant_no_recovery [OF h, of "Some 1" True] by simp
qed

section \<open>The pipeline, row by row\<close>

lemmas row_defs =
  raw_row.defs bod_limits_row.defs cod_limits_row.defs lin_bod_row.defs lin_cod_row.defs
  deviation_row.defs reduction_row.defs flag_row.defs psi_row.defs metric_row.defs
  failure_row.defs

lemmas stage_row_defs =
  calculate_bod_limits_row_def calculate_cod_limits_row_def
  linearise_bod_row_def linearise_cod_row_def
  calculate_deviation_columns_row_def calculate_reduction_columns_row_def
  calculate_flag_conditions_row_def calculate_psi_values_row_def
  calculate_metric_values_row_def determine_failure_type_row_def

lemmas stage_defs =
  calculate_all_limits_def calculate_bod_limits_def calculate_cod_limits_def
  apply_linearisation_def linearise_bod_def linearise_cod_def
  calculate_deviation_columns_def calculate_reduction_columns_def
  calculate_flag_conditions_def calculate_psi_values_def
  calculate_metric_values_def determine_failure_type_def

text \<open>The limit and linearisation stages leave the raw columns as they are.\<close>

lemma raw_columns_kept:
  "bod1 (calculate_bod_limits_row a b L r) = bod1 r"
  "bod31 (calculate_bod_limits_row a b L r) = bod31 r"
  "cod1 (calculate_bod_limits_row a b L r) = cod1 r"
  "cod31 (calculate_bod_limits_row a b L r) = cod31 r"
  "bod1 (calculate_cod_limits_row a b L r') = bod1 r'"
  "bod31 (calculate_cod_limits_row a b L r') = bod31 r'"
  "cod1 (calculate_cod_limits_row a b L r') = cod1 r'"
  "cod31 (calculate_cod_limits_row a b L r') = cod31 r'"
  "cod1 (linearise_bod_row a b r'') = cod1 r''"
  "cod31 (linearise_bod_row a b r'') = cod31 r''"
  by (simp_all add: stage_row_defs row_defs)

text \<open>
  A frame that passes validation is processed row by row, the four column reductions
  being those of the raw frame.
\<close>

lemma process_dataframe_map:
  assumes "process_dataframe df limits = Inr out"
    and "L = (case limits of None \<Rightarrow> ComplianceLimits_default | Some l \<Rightarrow> l)"
  shows "out = map (\<lambda>d. determine_failure_type_row (calculate_metric_values_row
                 (calculate_psi_values_row (calculate_flag_conditions_row
                 (calculate_reduction_columns_row (bod_pc L) (cod_pc L)
                 (calculate_deviation_columns_row
                 (linearise_cod_row (pd_min (map cod31 df)) (pd_max (map cod1 df))
                 (linearise_bod_row (pd_min (map bod31 df)) (pd_max (map bod1 df))
                 (calculate_cod_limits_row (pd_min (map cod31 df)) (pd_max (map cod1 df)) L
                 (calculate_bod_limits_row (pd_min (map bod31 df)) (pd_max (map bod1 df)) L
                    d)))))))))) df"
  using assms
  by (simp add: process_dataframe_def validate_dataframe_def Let_def stage_defs comp_def
      raw_columns_kept split: if_splits)

lemma process_dataframe_returns:
  "df \<noteq> [] \<Longrightarrow> process_dataframe df limits = Inr (projr (process_dataframe df limits))"
  by (simp add: process_dataframe_def validate_dataframe_def Let_def)

lemma process_dataframe_length:
  "process_dataframe df limits = Inr out \<Longrightarrow> length out = length df"
  using process_dataframe_map [of df limits out] by simp

text \<open>
  How the columns of a processed row hang together, from the deviations onwards: each
  column as the source computes it from the columns before it.
\<close>

lemma processed_row:
  assumes "process_dataframe df limits = Inr out" "r \<in> set out"
  shows "BODut_BODeffl r = fsub (BODut r) (LIN_BODe r)"
    and "CODut_CODeffl r = fsub (CODut r) (LIN_CODe r)"
    and "BODlt_BODeffl r = fsub (BODlt r) (LIN_BODe r)"
    and "CODlt_CODeffl r = fsub (CODlt r) (LIN_CODe r)"
    and "flag_BODlt r = fge (BODlt_BODeffl r) (Fin 0)"
    and "flag_BODut r = fge (BODut_BODeffl r) (Fin 0)"
    and "flag_CODlt r = fge (CODlt_CODeffl r) (Fin 0)"
    and "flag_reduction_bod r = fge (bodp r) (Fin 0)"
    and "flag_reduction_cod r = fge (codp r) (Fin 0)"
    and "flag_CODut r = fge (CODut_CODeffl r) (Fin 0)"
    and "bod_psi_1_min r = pd_min [BODlt_BODeffl r, bodp r]"
    and "bod_psi_1 r = pd_max [BODlt_BODeffl r, bod_psi_1_min r]"
    and "bod_psi_2 r = pd_min [BODlt_BODeffl r, bodp r, BODut_BODeffl r]"
    and "bod_psi_3 r = pd_min [BODut_BODeffl r, bodp r]"
    and "cod_psi_1_min r = pd_min [CODlt_CODeffl r, codp r]"
    and "cod_psi_1 r = pd_max [CODlt_CODeffl r, cod_psi_1_min r]"
    and "cod_psi_2 r = pd_min [CODlt_CODeffl r, codp r, CODut_CODeffl r]"
    and "cod_psi_3 r = pd_min [CODut_CODeffl r, codp r]"
    and "metric_lut r = pd_min [bod_psi_2 r, cod_psi_2 r]"
    and "metric_max r = pd_min [bod_psi_3 r, cod_psi_3 r]"
    and "bod_lut_exc r = (flt (bod_psi_2 r) (Fin 0) \<and> \<not> flag_BODlt r
                          \<and> \<not> flag_reduction_bod r \<and> flag_BODut r)"
    and "bod_max_lim r = (flt (bod_psi_3 r) (Fin 0) \<and> \<not> flag_BODlt r
                          \<and> \<not> flag_BODut r \<and> \<not> flag_reduction_bod r)"
    and "cod_lut_exc r = (flt (cod_psi_2 r) (Fin 0) \<and> \<not> flag_CODlt r
                          \<and> \<not> flag_reduction_cod r \<and> flag_CODut r)"
    and "cod_max_lim r = (flt (cod_psi_3 r) (Fin 0) \<and> \<not> flag_CODlt r
                          \<and> \<not> flag_CODut r \<and> \<not> flag_reduction_cod r)"
    and "metric r =
           np_select [(bod_lut_exc r \<or> cod_lut_exc r) \<and> \<not> (bod_max_lim r \<or> cod_max_lim r),
                      (bod_lut_exc r \<or> cod_lut_exc r) \<and> (bod_max_lim r \<or> cod_max_lim r)]
             [metric_lut r, metric_max r] (pd_max [bod_psi_1 r, cod_psi_1 r])"
    and "fail_type r =
           np_select [bod_lut_exc r, bod_max_lim r, cod_lut_exc r, cod_max_lim r]
             fail_type_values ''Compliant''"
    and "fail_source r =
           np_select [bod_lut_exc r \<or> bod_max_lim r, cod_lut_exc r \<or> cod_max_lim r]
             [''BOD'', ''COD''] ''None''"
proof -
  from process_dataframe_map [OF assms(1) refl] assms(2)
  obtain d where r: "r = determine_failure_type_row (calculate_metric_values_row
                 (calculate_psi_values_row (calculate_flag_conditions_row
                 (calculate_reduction_columns_row
                    (bod_pc (case limits of None \<Rightarrow> ComplianceLimits_default | Some l \<Rightarrow> l))
                    (cod_pc (case limits of None \<Rightarrow> ComplianceLimits_default | Some l \<Rightarrow> l))
                 (calculate_deviation_columns_row d)))))"
    by auto
  show "BODut_BODeffl r = fsub (BODut r) (LIN_BODe r)"
    and "CODut_CODeffl r = fsub (CODut r) (LIN_CODe r)"
    and "BODlt_BODeffl r = fsub (BODlt r) (LIN_BODe r)"
    and "CODlt_CODeffl r = fsub (CODlt r) (LIN_CODe r)"
    and "flag_BODlt r = fge (BODlt_BODeffl r) (Fin 0)"
    and "flag_BODut r = fge (BODut_BODeffl r) (Fin 0)"
    and "flag_CODlt r = fge (CODlt_CODeffl r) (Fin 0)"
    and "flag_reduction_bod r = fge (bodp r) (Fin 0)"
    and "flag_reduction_cod r = fge (codp r) (Fin 0)"
    and "flag_CODut r = fge (CODut_CODeffl r) (Fin 0)"
    and "bod_psi_1_min r = pd_min [BODlt_BODeffl r, bodp r]"
    and "bod_psi_1 r = pd_max [BODlt_BODeffl r, bod_psi_1_min r]"
    and "bod_psi_2 r = pd_min [BODlt_BODeffl r, bodp r, BODut_BODeffl r]"
    and "bod_psi_3 r = pd_min [BODut_BODeffl r, bodp r]"
    and "cod_psi_1_min r = pd_min [CODlt_CODeffl r, codp r]"
    and "cod_psi_1 r = pd_max [CODlt_CODeffl r, cod_psi_1_min r]"
    and "cod_psi_2 r = pd_min [CODlt_CODeffl r, codp r, CODut_CODeffl r]"
    and "cod_psi_3 r = pd_min [CODut_CODeffl r, codp r]"
    and "metric_lut r = pd_min [bod_psi_2 r, cod_psi_2 r]"
    and "metric_max r = pd_min [bod_psi_3 r, cod_psi_3 r]"
    and "bod_lut_exc r = (flt (bod_psi_2 r) (Fin 0) \<and> \<not> flag_BODlt r
                          \<and> \<not> flag_reduction_bod r \<and> flag_BODut r)"
    and "bod_max_lim r = (flt (bod_psi_3 r) (Fin 0) \<and> \<not> flag_BODlt r
                          \<and> \<not> flag_BODut r \<and> \<not> flag_reduction_bod r)"
    and "cod_lut_exc r = (flt (cod_psi_2 r) (Fin 0) \<and> \<not> flag_CODlt r
                          \<and> \<not> flag_reduction_cod r \<and> flag_CODut r)"
    and "cod_max_lim r = (flt (cod_psi_3 r) (Fin 0) \<and> \<not> flag_CODlt r
                          \<and> \<not> flag_CODut r \<and> \<not> flag_reduction_cod r)"
    and "metric r =
           np_select [(bod_lut_exc r \<or> cod_lut_exc r) \<and> \<not> (bod_max_lim r \<or> cod_max_lim r),
                      (bod_lut_exc r \<or> cod_lut_exc r) \<and> (bod_max_lim r \<or> cod_max_lim r)]
             [metric_lut r, metric_max r] (pd_max [bod_psi_1 r, cod_psi_1 r])"
    and "fail_type r =
           np_select [bod_lut_exc r, bod_max_lim r, cod_lut_exc r, cod_max_lim r]
             fail_type_values ''Compliant''"
    and "fail_source r =
           np_select [bod_lut_exc r \<or> bod_max_lim r, cod_lut_exc r \<or> cod_max_lim r]
             [''BOD'', ''COD''] ''None''"
    unfolding r
    by (simp_all add: determine_failure_type_row_def calculate_metric_values_row_def
        calculate_psi_values_row_def calculate_flag_conditions_row_def
        calculate_reduction_columns_row_def calculate_deviation_columns_row_def Let_def
        row_defs)
qed

text \<open>The limits and the linearised columns of a processed row, from the raw frame.\<close>

lemma processed_limits:
  assumes "process_dataframe df limits = Inr out" "r \<in> set out"
    and "L = (case limits of None \<Rightarrow> ComplianceLimits_default | Some l \<Rightarrow> l)"
  shows "BODut r = fabs (fdiv (fsub (Fin (bod_upper L)) (pd_min (map bod31 df)))
                       (fsub (pd_max (map bod1 df)) (pd_min (map bod31 df))))"
    and "BODlt r = fabs (fdiv (fsub (Fin (bod_lower L)) (pd_min (map bod31 df)))
                       (fsub (pd_max (map bod1 df)) (pd_min (map bod31 df))))"
    and "CODut r = fabs (fdiv (fsub (Fin (cod_upper L)) (pd_min (map cod31 df)))
                       (fsub (pd_max (map cod1 df)) (pd_min (map cod31 df))))"
    and "CODlt r = fabs (fdiv (fsub (Fin (cod_lower L)) (pd_min (map cod31 df)))
                       (fsub (pd_max (map cod1 df)) (pd_min (map cod31 df))))"
    and "LIN_BODe r = fabs (fdiv (fsub (bod31 r) (pd_min (map bod31 df)))
                       (fsub (pd_max (map bod1 df)) (pd_min (map bod31 df))))"
    and "LIN_BODi r = fabs (fdiv (fsub (bod1 r) (pd_min (map bod31 df)))
                       (fsub (pd_max (map bod1 df)) (pd_min (map bod31 df))))"
    and "LIN_CODe r = fabs (fdiv (fsub (cod31 r) (pd_min (map cod31 df)))
                       (fsub (pd_max (map cod1 df)) (pd_min (map cod31 df))))"
    and "LIN_CODi r = fabs (fdiv (fsub (cod1 r) (pd_min (map cod31 df)))
                       (fsub (pd_max (map cod1 df)) (pd_min (map cod31 df))))"
    and "bodp r = fsub (fadd (fneg (fmul (Fin (bod_pc L)) (LIN_BODi r))) (LIN_BODi r)) (LIN_BODe r)"
    and "codp r = fsub (fadd (fneg (fmul (Fin (cod_pc L)) (LIN_CODi r))) (LIN_CODi r)) (LIN_CODe r)"
proof -
  from process_dataframe_map [OF assms(1) assms(3)] assms(2)
  obtain d where r: "r = determine_failure_type_row (calculate_metric_values_row
                 (calculate_psi_values_row (calculate_flag_conditions_row
                 (calculate_reduction_columns_row (bod_pc L) (cod_pc L)
                 (calculate_deviation_columns_row
                 (linearise_cod_row (pd_min (map cod31 df)) (pd_max (map cod1 df))
                 (linearise_bod_row (pd_min (map bod31 df)) (pd_max (map bod1 df))
                 (calculate_cod_limits_row (pd_min (map cod31 df)) (pd_max (map cod1 df)) L
                 (calculate_bod_limits_row (pd_min (map bod31 df)) (pd_max (map bod1 df)) L
                    d)))))))))"
    by auto
  show "BODut r = fabs (fdiv (fsub (Fin (bod_upper L)) (pd_min (map bod31 df)))
                       (fsub (pd_max (map bod1 df)) (pd_min (map bod31 df))))"
    and "BODlt r = fabs (fdiv (fsub (Fin (bod_lower L)) (pd_min (map bod31 df)))
                       (fsub (pd_max (map bod1 df)) (pd_min (map bod31 df))))"
    and "CODut r = fabs (fdiv (fsub (Fin (cod_upper L)) (pd_min (map cod31 df)))
                       (fsub (pd_max (map cod1 df)) (pd_min (map cod31 df))))"
    and "CODlt r = fabs (fdiv (fsub (Fin (cod_lower L)) (pd_min (map cod31 df)))
                       (fsub (pd_max (map cod1 df)) (pd_min (map cod31 df))))"
    and "LIN_BODe r = fabs (fdiv (fsub (bod31 r) (pd_min (map bod31 df)))
                       (fsub (pd_max (map bod1 df)) (pd_min (map bod31 df))))"
    and "LIN_BODi r = fabs (fdiv (fsub (bod1 r) (pd_min (map bod31 df)))
                       (fsub (pd_max (map bod1 df)) (pd_min (map bod31 df))))"
    and "LIN_CODe r = fabs (fdiv (fsub (cod31 r) (pd_min (map cod31 df)))
                       (fsub (pd_max (map cod1 df)) (pd_min (map cod31 df))))"
    and "LIN_CODi r = fabs (fdiv (fsub (cod1 r) (pd_min (map cod31 df)))
                       (fsub (pd_max (map cod1 df)) (pd_min (map cod31 df))))"
    and "bodp r = fsub (fadd (fneg (fmul (Fin (bod_pc L)) (LIN_BODi r))) (LIN_BODi r)) (LIN_BODe r)"
    and "codp r = fsub (fadd (fneg (fmul (Fin (cod_pc L)) (LIN_CODi r))) (LIN_CODi r)) (LIN_CODe r)"
    unfolding r by (simp_all add: stage_row_defs Let_def row_defs)
qed

text \<open>The failure predicates of one pollutant exclude each other; the selection follows.\<close>

lemma processed_exclusive:
  assumes "process_dataframe df limits = Inr out" "r \<in> set out"
  shows "\<not> (bod_lut_exc r \<and> bod_max_lim r)" and "\<not> (cod_lut_exc r \<and> cod_max_lim r)"
  using processed_row(21-24) [OF assms] by auto

lemma processed_fail_type:
  assumes "process_dataframe df limits = Inr out" "r \<in> set out"
  shows "fail_type r =
           (if bod_lut_exc r then ''LUT exceedance''
            else if bod_max_lim r then ''Max Limit Failure''
            else if cod_lut_exc r then ''LUT exceedance''
            else if cod_max_lim r then ''Max Limit Failure''
            else ''Compliant'')"
  by (simp add: processed_row(26) [OF assms] fail_type_values_def)

lemma processed_fail_source:
  assumes "process_dataframe df limits = Inr out" "r \<in> set out"
  shows "fail_source r =
           (if bod_lut_exc r \<or> bod_max_lim r then ''BOD''
            else if cod_lut_exc r \<or> cod_max_lim r then ''COD''
            else ''None'')"
  by (simp add: processed_row(27) [OF assms])

section \<open>The data sets, processed\<close>

lemma example_returns: "process_dataframe example_df None = Inr example_processed"
  unfolding example_processed_def
  by (rule process_dataframe_returns) (simp add: example_df_def)

lemma example_length: "length example_processed = 2"
  using process_dataframe_length [OF example_returns] by (simp add: example_df_def)

lemma example_nonempty: "example_processed \<noteq> []"
  using example_length by auto

lemma example_rows:
  "hd example_processed \<in> set example_processed"
  "last example_processed \<in> set example_processed"
  by (simp_all add: example_nonempty)

lemma example_columns:
  "map BODlt_BODeffl example_processed = [Fin (- (1 / 20)), Fin (1 / 4)]"
  "map BODut_BODeffl example_processed = [Fin (1 / 5), Fin (1 / 2)]"
  "map bodp example_processed = [Fin (- (3 / 20)), Fin (3 / 10)]"
  "map CODlt_CODeffl example_processed = [Fin (- (7 / 40)), Fin (1 / 8)]"
  "map CODut_CODeffl example_processed = [Fin (- (1 / 20)), Fin (1 / 4)]"
  "map codp example_processed = [Fin (- (1 / 5)), Fin (1 / 4)]"
  unfolding process_dataframe_map [OF example_returns refl]
  by (simp_all add: example_df_def ComplianceLimits_default_def pd_min_def pd_max_def
      stage_row_defs Let_def row_defs fsub_def)

lemma example_first:
  "BODlt_BODeffl (hd example_processed) = Fin (- (1 / 20))"
  "BODut_BODeffl (hd example_processed) = Fin (1 / 5)"
  "bodp (hd example_processed) = Fin (- (3 / 20))"
  "CODlt_CODeffl (hd example_processed) = Fin (- (7 / 40))"
  "CODut_CODeffl (hd example_processed) = Fin (- (1 / 20))"
  "codp (hd example_processed) = Fin (- (1 / 5))"
  using example_columns [THEN arg_cong, of hd] by (simp_all add: hd_map example_nonempty)

lemma example_last:
  "BODlt_BODeffl (last example_processed) = Fin (1 / 4)"
  "BODut_BODeffl (last example_processed) = Fin (1 / 2)"
  "bodp (last example_processed) = Fin (3 / 10)"
  "CODlt_CODeffl (last example_processed) = Fin (1 / 8)"
  "CODut_CODeffl (last example_processed) = Fin (1 / 4)"
  "codp (last example_processed) = Fin (1 / 4)"
  using example_columns [THEN arg_cong, of last] by (simp_all add: last_map example_nonempty)

lemma example_first_predicates:
  "bod_lut_exc (hd example_processed)" "\<not> bod_max_lim (hd example_processed)"
  "\<not> cod_lut_exc (hd example_processed)" "cod_max_lim (hd example_processed)"
  by (simp_all add: processed_row(5-24) [OF example_returns example_rows(1)] example_first
      pd_min_def fge_def)

lemma example_last_predicates:
  "\<not> bod_lut_exc (last example_processed)" "\<not> bod_max_lim (last example_processed)"
  "\<not> cod_lut_exc (last example_processed)" "\<not> cod_max_lim (last example_processed)"
  by (simp_all add: processed_row(5-24) [OF example_returns example_rows(2)] example_last
      pd_min_def fge_def)

lemma degenerate_returns: "process_dataframe degenerate_df None = Inr degenerate_processed"
  unfolding degenerate_processed_def
  by (rule process_dataframe_returns) (simp add: degenerate_df_def)

lemma degenerate_nonempty: "degenerate_processed \<noteq> []"
  using process_dataframe_length [OF degenerate_returns] by (auto simp: degenerate_df_def)

lemma degenerate_columns:
  "map BODut degenerate_processed = [PInf, PInf]"
  "map LIN_BODe degenerate_processed = [NaN, PInf]"
  "map CODut degenerate_processed = [PInf, PInf]"
  "map LIN_CODe degenerate_processed = [NaN, PInf]"
  unfolding process_dataframe_map [OF degenerate_returns refl]
  by (simp_all add: degenerate_df_def ComplianceLimits_default_def pd_min_def pd_max_def
      stage_row_defs Let_def row_defs fsub_def inf_of_sign_def)

lemma degenerate_zero_range:
  "feq (pd_max (map bod1 degenerate_df)) (pd_min (map bod31 degenerate_df))"
  "feq (pd_max (map cod1 degenerate_df)) (pd_min (map cod31 degenerate_df))"
  by (simp_all add: degenerate_df_def pd_min_def pd_max_def)

lemma selection_returns: "process_dataframe selection_df None = Inr selection_processed"
  unfolding selection_processed_def
  by (rule process_dataframe_returns) (simp add: selection_df_def)

lemma selection_length: "length selection_processed = 4"
  using process_dataframe_length [OF selection_returns] by (simp add: selection_df_def)

lemma selection_rows:
  "selection_processed ! 0 \<in> set selection_processed"
  "selection_processed ! 1 \<in> set selection_processed"
  "selection_processed ! 2 \<in> set selection_processed"
  "selection_processed ! 3 \<in> set selection_processed"
  by (simp_all add: selection_length)

lemma selection_columns:
  "map BODlt_BODeffl selection_processed
     = [Fin (- (3 / 20)), Fin (- (3 / 20)), Fin (3 / 20), Fin (1 / 4)]"
  "map BODut_BODeffl selection_processed
     = [Fin (1 / 10), Fin (1 / 10), Fin (2 / 5), Fin (1 / 2)]"
  "map bodp selection_processed
     = [Fin (- (13 / 100)), Fin (- (13 / 100)), Fin (17 / 100), Fin (3 / 10)]"
  "map CODlt_CODeffl selection_processed
     = [Fin (1 / 40), Fin (- (7 / 40)), Fin (- (7 / 40)), Fin (1 / 8)]"
  "map CODut_CODeffl selection_processed
     = [Fin (3 / 20), Fin (- (1 / 20)), Fin (- (1 / 20)), Fin (1 / 4)]"
  "map codp selection_processed
     = [Fin (1 / 10), Fin (- (1 / 10)), Fin (- (1 / 10)), Fin (1 / 4)]"
  unfolding process_dataframe_map [OF selection_returns refl]
  by (simp_all add: selection_df_def ComplianceLimits_default_def pd_min_def pd_max_def
      stage_row_defs Let_def row_defs fsub_def)

lemma column_at: "map f xs = vs \<Longrightarrow> i < length xs \<Longrightarrow> f (xs ! i) = vs ! i"
  by auto

lemma selection_row0:
  "BODlt_BODeffl (selection_processed ! 0) = Fin (- (3 / 20))"
  "BODut_BODeffl (selection_processed ! 0) = Fin (1 / 10)"
  "bodp (selection_processed ! 0) = Fin (- (13 / 100))"
  "CODlt_CODeffl (selection_processed ! 0) = Fin (1 / 40)"
  "CODut_CODeffl (selection_processed ! 0) = Fin (3 / 20)"
  "codp (selection_processed ! 0) = Fin (1 / 10)"
  using selection_columns [THEN column_at, of 0] by (simp_all add: selection_length)

lemma selection_row1:
  "BODlt_BODeffl (selection_processed ! 1) = Fin (- (3 / 20))"
  "BODut_BODeffl (selection_processed ! 1) = Fin (1 / 10)"
  "bodp (selection_processed ! 1) = Fin (- (13 / 100))"
  "CODlt_CODeffl (selection_processed ! 1) = Fin (- (7 / 40))"
  "CODut_CODeffl (selection_processed ! 1) = Fin (- (1 / 20))"
  "codp (selection_processed ! 1) = Fin (- (1 / 10))"
  using selection_columns [THEN column_at, of 1] by (simp_all add: selection_length)

lemma selection_row2:
  "BODlt_BODeffl (selection_processed ! 2) = Fin (3 / 20)"
  "BODut_BODeffl (selection_processed ! 2) = Fin (2 / 5)"
  "bodp (selection_processed ! 2) = Fin (17 / 100)"
  "CODlt_CODeffl (selection_processed ! 2) = Fin (- (7 / 40))"
  "CODut_CODeffl (selection_processed ! 2) = Fin (- (1 / 20))"
  "codp (selection_processed ! 2) = Fin (- (1 / 10))"
  using selection_columns [THEN column_at, of 2] by (simp_all add: selection_length)

lemma selection_row3:
  "BODlt_BODeffl (selection_processed ! 3) = Fin (1 / 4)"
  "BODut_BODeffl (selection_processed ! 3) = Fin (1 / 2)"
  "bodp (selection_processed ! 3) = Fin (3 / 10)"
  "CODlt_CODeffl (selection_processed ! 3) = Fin (1 / 8)"
  "CODut_CODeffl (selection_processed ! 3) = Fin (1 / 4)"
  "codp (selection_processed ! 3) = Fin (1 / 4)"
  using selection_columns [THEN column_at, of 3] by (simp_all add: selection_length)

section \<open>Failure classification: results\<close>

text \<open>
  C1. The specification lets a max-limit predicate win on every row. The source selects
  the first predicate that holds in the order \<open>bod_lut_exc\<close>, \<open>bod_max_lim\<close>,
  \<open>cod_lut_exc\<close>, \<open>cod_max_lim\<close>. So on every row of a processed frame: \<open>fail_type\<close> is
  Max Limit Failure exactly when \<open>bod_max_lim\<close> holds, or \<open>cod_max_lim\<close> holds and
  \<open>bod_lut_exc\<close> does not; it is LUT exceedance exactly when \<open>bod_lut_exc\<close> holds, or
  \<open>cod_lut_exc\<close> holds and \<open>bod_max_lim\<close> does not; and it is Compliant exactly when none
  of the four predicates holds. The four predicates are those of the source: each is
  the conjunction of a negative severity and three flag values of the row, the
  severities being the row minima of the deviations and the reduction, and the flags
  the signs of the deviations and the reduction.
\<close>

theorem fail_type_first_match:
  assumes "process_dataframe df limits = Inr out" "r \<in> set out"
  shows "(fail_type r = ''Max Limit Failure''
            \<longleftrightarrow> bod_max_lim r \<or> (cod_max_lim r \<and> \<not> bod_lut_exc r))
       \<and> (fail_type r = ''LUT exceedance''
            \<longleftrightarrow> bod_lut_exc r \<or> (cod_lut_exc r \<and> \<not> bod_max_lim r))
       \<and> (fail_type r = ''Compliant''
            \<longleftrightarrow> \<not> (bod_lut_exc r \<or> bod_max_lim r \<or> cod_lut_exc r \<or> cod_max_lim r))
       \<and> bod_lut_exc r = (flt (bod_psi_2 r) (Fin 0) \<and> \<not> flag_BODlt r
                           \<and> \<not> flag_reduction_bod r \<and> flag_BODut r)
       \<and> bod_max_lim r = (flt (bod_psi_3 r) (Fin 0) \<and> \<not> flag_BODlt r
                           \<and> \<not> flag_BODut r \<and> \<not> flag_reduction_bod r)
       \<and> cod_lut_exc r = (flt (cod_psi_2 r) (Fin 0) \<and> \<not> flag_CODlt r
                           \<and> \<not> flag_reduction_cod r \<and> flag_CODut r)
       \<and> cod_max_lim r = (flt (cod_psi_3 r) (Fin 0) \<and> \<not> flag_CODlt r
                           \<and> \<not> flag_CODut r \<and> \<not> flag_reduction_cod r)
       \<and> bod_psi_2 r = pd_min [BODlt_BODeffl r, bodp r, BODut_BODeffl r]
       \<and> bod_psi_3 r = pd_min [BODut_BODeffl r, bodp r]
       \<and> cod_psi_2 r = pd_min [CODlt_CODeffl r, codp r, CODut_CODeffl r]
       \<and> cod_psi_3 r = pd_min [CODut_CODeffl r, codp r]
       \<and> flag_BODlt r = fge (BODlt_BODeffl r) (Fin 0)
       \<and> flag_BODut r = fge (BODut_BODeffl r) (Fin 0)
       \<and> flag_reduction_bod r = fge (bodp r) (Fin 0)
       \<and> flag_CODlt r = fge (CODlt_CODeffl r) (Fin 0)
       \<and> flag_CODut r = fge (CODut_CODeffl r) (Fin 0)
       \<and> flag_reduction_cod r = fge (codp r) (Fin 0)"
proof -
  have sel: "(fail_type r = ''Max Limit Failure''
            \<longleftrightarrow> bod_max_lim r \<or> (cod_max_lim r \<and> \<not> bod_lut_exc r))
       \<and> (fail_type r = ''LUT exceedance''
            \<longleftrightarrow> bod_lut_exc r \<or> (cod_lut_exc r \<and> \<not> bod_max_lim r))
       \<and> (fail_type r = ''Compliant''
            \<longleftrightarrow> \<not> (bod_lut_exc r \<or> bod_max_lim r \<or> cod_lut_exc r \<or> cod_max_lim r))"
    using processed_exclusive [OF assms]
    by (auto simp: processed_fail_type [OF assms])
  note cols = processed_row [OF assms]
  show ?thesis
    using sel cols(21) cols(22) cols(23) cols(24) cols(13) cols(14) cols(17) cols(18)
      cols(5) cols(6) cols(8) cols(7) cols(10) cols(9)
    by (intro conjI) blast+
qed

theorem fail_type_first_match_witness:
  "process_dataframe selection_df None = Inr selection_processed
   \<and> fail_type (selection_processed ! 0) = ''LUT exceedance''
   \<and> fail_type (selection_processed ! 1) = ''LUT exceedance''
   \<and> fail_type (selection_processed ! 2) = ''Max Limit Failure''
   \<and> fail_type (selection_processed ! 3) = ''Compliant''"
proof -
  have "fail_type (selection_processed ! 0) = ''LUT exceedance''"
    using fail_type_first_match [OF selection_returns selection_rows(1)] selection_row0
    by (simp add: pd_min_def fge_def)
  moreover have "fail_type (selection_processed ! 1) = ''LUT exceedance''"
    using fail_type_first_match [OF selection_returns selection_rows(2)] selection_row1
    by (simp add: pd_min_def fge_def)
  moreover have "fail_type (selection_processed ! 2) = ''Max Limit Failure''"
    using fail_type_first_match [OF selection_returns selection_rows(3)] selection_row2
    by (simp add: pd_min_def fge_def)
  moreover have "fail_type (selection_processed ! 3) = ''Compliant''"
    using fail_type_first_match [OF selection_returns selection_rows(4)] selection_row3
    by (simp add: pd_min_def fge_def)
  ultimately show ?thesis
    using selection_returns by simp
qed

text \<open>
  The first row of the example has a COD max-limit failure and a BOD LUT exceedance; its
  \<open>fail_type\<close> is LUT exceedance, not Max Limit Failure.
\<close>

theorem max_limit_does_not_always_win:
  "process_dataframe example_df None = Inr example_processed
   \<and> hd example_processed \<in> set example_processed
   \<and> cod_max_lim (hd example_processed)
   \<and> fail_type (hd example_processed) = ''LUT exceedance''
   \<and> fail_type (hd example_processed) \<noteq> ''Max Limit Failure''"
  by (simp add: example_returns example_rows example_first_predicates
      processed_fail_type [OF example_returns example_rows(1)])

text \<open>
  C3. On every row of a processed frame, \<open>metric\<close> is \<open>min(bod_psi_2, cod_psi_2)\<close> when a
  LUT predicate holds and no max-limit predicate does, \<open>min(bod_psi_3, cod_psi_3)\<close> when a
  LUT predicate and a max-limit predicate both hold, and \<open>max(bod_psi_1, cod_psi_1)\<close> in
  every other case, the rows where only a max-limit predicate holds among them. The
  predicates, the severities and the flags are those the source computes from the
  deviations and the reductions of the row, so these six columns determine the metric.
\<close>

theorem metric_selection:
  assumes "process_dataframe df limits = Inr out" "r \<in> set out"
  shows "metric r =
           (if (bod_lut_exc r \<or> cod_lut_exc r) \<and> \<not> (bod_max_lim r \<or> cod_max_lim r)
            then pd_min [bod_psi_2 r, cod_psi_2 r]
            else if (bod_lut_exc r \<or> cod_lut_exc r) \<and> (bod_max_lim r \<or> cod_max_lim r)
            then pd_min [bod_psi_3 r, cod_psi_3 r]
            else pd_max [bod_psi_1 r, cod_psi_1 r])
       \<and> bod_lut_exc r = (flt (bod_psi_2 r) (Fin 0) \<and> \<not> flag_BODlt r
                           \<and> \<not> flag_reduction_bod r \<and> flag_BODut r)
       \<and> bod_max_lim r = (flt (bod_psi_3 r) (Fin 0) \<and> \<not> flag_BODlt r
                           \<and> \<not> flag_BODut r \<and> \<not> flag_reduction_bod r)
       \<and> cod_lut_exc r = (flt (cod_psi_2 r) (Fin 0) \<and> \<not> flag_CODlt r
                           \<and> \<not> flag_reduction_cod r \<and> flag_CODut r)
       \<and> cod_max_lim r = (flt (cod_psi_3 r) (Fin 0) \<and> \<not> flag_CODlt r
                           \<and> \<not> flag_CODut r \<and> \<not> flag_reduction_cod r)
       \<and> bod_psi_1 r = pd_max [BODlt_BODeffl r, pd_min [BODlt_BODeffl r, bodp r]]
       \<and> bod_psi_2 r = pd_min [BODlt_BODeffl r, bodp r, BODut_BODeffl r]
       \<and> bod_psi_3 r = pd_min [BODut_BODeffl r, bodp r]
       \<and> cod_psi_1 r = pd_max [CODlt_CODeffl r, pd_min [CODlt_CODeffl r, codp r]]
       \<and> cod_psi_2 r = pd_min [CODlt_CODeffl r, codp r, CODut_CODeffl r]
       \<and> cod_psi_3 r = pd_min [CODut_CODeffl r, codp r]
       \<and> flag_BODlt r = fge (BODlt_BODeffl r) (Fin 0)
       \<and> flag_BODut r = fge (BODut_BODeffl r) (Fin 0)
       \<and> flag_reduction_bod r = fge (bodp r) (Fin 0)
       \<and> flag_CODlt r = fge (CODlt_CODeffl r) (Fin 0)
       \<and> flag_CODut r = fge (CODut_CODeffl r) (Fin 0)
       \<and> flag_reduction_cod r = fge (codp r) (Fin 0)"
proof -
  note cols = processed_row [OF assms]
  have m: "metric r =
           (if (bod_lut_exc r \<or> cod_lut_exc r) \<and> \<not> (bod_max_lim r \<or> cod_max_lim r)
            then pd_min [bod_psi_2 r, cod_psi_2 r]
            else if (bod_lut_exc r \<or> cod_lut_exc r) \<and> (bod_max_lim r \<or> cod_max_lim r)
            then pd_min [bod_psi_3 r, cod_psi_3 r]
            else pd_max [bod_psi_1 r, cod_psi_1 r])"
    unfolding cols(25) cols(19) cols(20) by simp
  have b1: "bod_psi_1 r = pd_max [BODlt_BODeffl r, pd_min [BODlt_BODeffl r, bodp r]]"
    unfolding cols(12) cols(11) ..
  have c1: "cod_psi_1 r = pd_max [CODlt_CODeffl r, pd_min [CODlt_CODeffl r, codp r]]"
    unfolding cols(16) cols(15) ..
  show ?thesis
    using m b1 c1 cols(21) cols(22) cols(23) cols(24) cols(13) cols(14) cols(17) cols(18)
      cols(5) cols(6) cols(8) cols(7) cols(10) cols(9)
    by (intro conjI) blast+
qed

theorem metric_selection_witness:
  "process_dataframe selection_df None = Inr selection_processed
   \<and> metric (selection_processed ! 0) = Fin (- (3 / 20))
   \<and> metric (selection_processed ! 1) = Fin (- (13 / 100))
   \<and> metric (selection_processed ! 2) = Fin (3 / 20)
   \<and> metric (selection_processed ! 3) = Fin (1 / 4)"
proof -
  have "metric (selection_processed ! 0) = Fin (- (3 / 20))"
    using metric_selection [OF selection_returns selection_rows(1)] selection_row0
    by (simp add: pd_min_def pd_max_def fge_def)
  moreover have "metric (selection_processed ! 1) = Fin (- (13 / 100))"
    using metric_selection [OF selection_returns selection_rows(2)] selection_row1
    by (simp add: pd_min_def pd_max_def fge_def)
  moreover have "metric (selection_processed ! 2) = Fin (3 / 20)"
    using metric_selection [OF selection_returns selection_rows(3)] selection_row2
    by (simp add: pd_min_def pd_max_def fge_def)
  moreover have "metric (selection_processed ! 3) = Fin (1 / 4)"
    using metric_selection [OF selection_returns selection_rows(4)] selection_row3
    by (simp add: pd_min_def pd_max_def fge_def)
  ultimately show ?thesis
    using selection_returns by simp
qed

text \<open>
  C5. On every row of a processed frame, \<open>fail_type\<close> is one of Compliant, LUT
  exceedance and Max Limit Failure, \<open>fail_source\<close> is one of BOD, COD and None, and
  \<open>fail_source\<close> is None exactly when \<open>fail_type\<close> is Compliant.
\<close>

theorem classification_exhaustive:
  assumes "process_dataframe df limits = Inr out" "r \<in> set out"
  shows "fail_type r \<in> {''Compliant'', ''LUT exceedance'', ''Max Limit Failure''}
       \<and> fail_source r \<in> {''BOD'', ''COD'', ''None''}
       \<and> (fail_source r = ''None'' \<longleftrightarrow> fail_type r = ''Compliant'')"
  by (simp add: processed_fail_type [OF assms] processed_fail_source [OF assms])

theorem classification_exhaustive_witness:
  "process_dataframe example_df None = Inr example_processed
   \<and> fail_type (last example_processed) = ''Compliant''
   \<and> fail_source (last example_processed) = ''None''
   \<and> fail_type (hd example_processed) \<noteq> ''Compliant''
   \<and> fail_source (hd example_processed) \<noteq> ''None''"
  using classification_exhaustive [OF example_returns example_rows(1)]
    classification_exhaustive [OF example_returns example_rows(2)]
    processed_fail_type [OF example_returns example_rows(1)]
    processed_fail_type [OF example_returns example_rows(2)]
    example_returns example_first_predicates example_last_predicates
  by simp

text \<open>
  C9. The two failure predicates of one pollutant never hold together, whatever the row:
  the LUT predicate asks for the upper flag to be true and the max-limit predicate for it
  to be false. This holds for the predicates as \<open>determine_failure_type\<close> stores them and
  as \<open>calculate_failure_conditions\<close> returns them.
\<close>

theorem failure_predicates_exclusive:
  "\<not> (bod_lut_exc (determine_failure_type_row r) \<and> bod_max_lim (determine_failure_type_row r))
   \<and> \<not> (cod_lut_exc (determine_failure_type_row r) \<and> cod_max_lim (determine_failure_type_row r))
   \<and> \<not> (fc_bod_lut_exc (calculate_failure_conditions_row d)
          \<and> fc_bod_max_lim (calculate_failure_conditions_row d))
   \<and> \<not> (fc_cod_lut_exc (calculate_failure_conditions_row d)
          \<and> fc_cod_max_lim (calculate_failure_conditions_row d))"
  by (simp add: determine_failure_type_row_def calculate_failure_conditions_row_def Let_def
      row_defs)

section \<open>Severity: results\<close>

lemma absorb_max_min: "\<not> is_nan a \<Longrightarrow> pd_max [a, pd_min [a, b]] = a"
  by (cases a; cases b) (simp_all add: pd_max_def pd_min_def)

text \<open>
  C10. On a row of a processed frame whose deviations and reductions are not NaN,
  \<open>bod_psi_1\<close> is the lower BOD deviation and \<open>cod_psi_1\<close> the lower COD deviation, so
  the fallback of the metric selection is the larger of the two lower deviations, and it
  is the metric of the row when no LUT predicate holds.
\<close>

theorem psi_1_is_lower_deviation:
  assumes "process_dataframe df limits = Inr out" "r \<in> set out"
    and "\<not> is_nan (BODlt_BODeffl r)" "\<not> is_nan (BODut_BODeffl r)" "\<not> is_nan (bodp r)"
    and "\<not> is_nan (CODlt_CODeffl r)" "\<not> is_nan (CODut_CODeffl r)" "\<not> is_nan (codp r)"
  shows "bod_psi_1 r = BODlt_BODeffl r
       \<and> cod_psi_1 r = CODlt_CODeffl r
       \<and> pd_max [bod_psi_1 r, cod_psi_1 r] = pd_max [BODlt_BODeffl r, CODlt_CODeffl r]
       \<and> (\<not> (bod_lut_exc r \<or> cod_lut_exc r)
            \<longrightarrow> metric r = pd_max [BODlt_BODeffl r, CODlt_CODeffl r])"
proof -
  have b: "bod_psi_1 r = BODlt_BODeffl r"
    unfolding processed_row(12) [OF assms(1,2)] processed_row(11) [OF assms(1,2)]
    using assms(3) by (rule absorb_max_min)
  have c: "cod_psi_1 r = CODlt_CODeffl r"
    unfolding processed_row(16) [OF assms(1,2)] processed_row(15) [OF assms(1,2)]
    using assms(6) by (rule absorb_max_min)
  have m: "\<not> (bod_lut_exc r \<or> cod_lut_exc r) \<Longrightarrow> metric r = pd_max [bod_psi_1 r, cod_psi_1 r]"
    unfolding processed_row(25) [OF assms(1,2)] by simp
  show ?thesis
    using m by (simp add: b c)
qed

theorem psi_1_is_lower_deviation_witness:
  "process_dataframe example_df None = Inr example_processed
   \<and> bod_psi_1 (last example_processed) = Fin (1 / 4)
   \<and> cod_psi_1 (last example_processed) = Fin (1 / 8)
   \<and> metric (last example_processed) = Fin (1 / 4)"
  using psi_1_is_lower_deviation [OF example_returns example_rows(2)]
    example_returns example_last example_last_predicates
  by (simp add: pd_max_def)

section \<open>Zero dynamic range: results\<close>

lemma feq_fsub: "feq a b \<Longrightarrow> fsub a b = Fin 0 \<or> fsub a b = NaN"
  by (cases a; cases b) (simp_all add: fsub_def)

lemma fabs_fdiv_zero:
  "z = Fin 0 \<or> z = NaN \<Longrightarrow> fabs (fdiv x z) = PInf \<or> fabs (fdiv x z) = NaN"
  by (cases x) (auto simp: inf_of_sign_def)

lemma fsub_inf_nan: "a = PInf \<or> a = NaN \<Longrightarrow> b = PInf \<or> b = NaN \<Longrightarrow> fsub a b = NaN"
  by (auto simp: fsub_def)

lemma reduction_inf_nan:
  "i = PInf \<or> i = NaN \<Longrightarrow> e = PInf \<or> e = NaN \<Longrightarrow>
   fsub (fadd (fneg (fmul (Fin pc) i)) i) e = NaN"
  by (auto simp: fsub_def inf_of_sign_def)

lemma nan_predicates:
  "fge NaN (Fin 0) = False" "pd_min [NaN, NaN, NaN] = NaN" "pd_min [NaN, NaN] = NaN"
  by (simp_all add: fge_def pd_min_def)

text \<open>A pollutant, in a processed row, whose influent maximum equals its effluent minimum.\<close>

lemma zero_range_bod:
  assumes "process_dataframe df limits = Inr out" "r \<in> set out"
    and "feq (pd_max (map bod1 df)) (pd_min (map bod31 df))"
  shows "(BODut r = PInf \<or> BODut r = NaN) \<and> (BODlt r = PInf \<or> BODlt r = NaN)
       \<and> (LIN_BODe r = PInf \<or> LIN_BODe r = NaN) \<and> (LIN_BODi r = PInf \<or> LIN_BODi r = NaN)
       \<and> BODut_BODeffl r = NaN \<and> BODlt_BODeffl r = NaN \<and> bodp r = NaN
       \<and> flag_BODut r = False \<and> flag_BODlt r = False \<and> flag_reduction_bod r = False
       \<and> bod_lut_exc r = False \<and> bod_max_lim r = False"
proof -
  note z = feq_fsub [OF assms(3)]
  note lim = processed_limits [OF assms(1,2) refl]
  have ut: "BODut r = PInf \<or> BODut r = NaN" and lt: "BODlt r = PInf \<or> BODlt r = NaN"
    and e: "LIN_BODe r = PInf \<or> LIN_BODe r = NaN" and i: "LIN_BODi r = PInf \<or> LIN_BODi r = NaN"
    unfolding lim(1,2,5,6) by (rule fabs_fdiv_zero [OF z])+
  have p: "bodp r = NaN"
    unfolding lim(9) by (rule reduction_inf_nan [OF i e])
  have du: "BODut_BODeffl r = NaN" and dl: "BODlt_BODeffl r = NaN"
    unfolding processed_row(1,3) [OF assms(1,2)]
    by (rule fsub_inf_nan [OF ut e], rule fsub_inf_nan [OF lt e])
  show ?thesis
    using ut lt e i
    by (simp add: p du dl processed_row(5-24) [OF assms(1,2)] nan_predicates)
qed

lemma zero_range_cod:
  assumes "process_dataframe df limits = Inr out" "r \<in> set out"
    and "feq (pd_max (map cod1 df)) (pd_min (map cod31 df))"
  shows "(CODut r = PInf \<or> CODut r = NaN) \<and> (CODlt r = PInf \<or> CODlt r = NaN)
       \<and> (LIN_CODe r = PInf \<or> LIN_CODe r = NaN) \<and> (LIN_CODi r = PInf \<or> LIN_CODi r = NaN)
       \<and> CODut_CODeffl r = NaN \<and> CODlt_CODeffl r = NaN \<and> codp r = NaN
       \<and> flag_CODut r = False \<and> flag_CODlt r = False \<and> flag_reduction_cod r = False
       \<and> cod_lut_exc r = False \<and> cod_max_lim r = False"
proof -
  note z = feq_fsub [OF assms(3)]
  note lim = processed_limits [OF assms(1,2) refl]
  have ut: "CODut r = PInf \<or> CODut r = NaN" and lt: "CODlt r = PInf \<or> CODlt r = NaN"
    and e: "LIN_CODe r = PInf \<or> LIN_CODe r = NaN" and i: "LIN_CODi r = PInf \<or> LIN_CODi r = NaN"
    unfolding lim(3,4,7,8) by (rule fabs_fdiv_zero [OF z])+
  have p: "codp r = NaN"
    unfolding lim(10) by (rule reduction_inf_nan [OF i e])
  have du: "CODut_CODeffl r = NaN" and dl: "CODlt_CODeffl r = NaN"
    unfolding processed_row(2,4) [OF assms(1,2)]
    by (rule fsub_inf_nan [OF ut e], rule fsub_inf_nan [OF lt e])
  show ?thesis
    using ut lt e i
    by (simp add: p du dl processed_row(5-24) [OF assms(1,2)] nan_predicates)
qed

text \<open>
  C2. The specification asks for a ComputationError when the largest influent equals the
  smallest effluent of a pollutant. The source has no such error and no check of the
  divisor: on a frame that is not empty \<open>process_dataframe\<close> returns a frame, of the same
  length; and where the two values are equal for a pollutant, on every row that
  pollutant's two limits and two linearised concentrations are \<open>+inf\<close> or NaN, its two
  deviations and its reduction are NaN, its three flags are false and neither of its
  failure predicates holds.
\<close>

theorem zero_range_raises_nothing:
  assumes "df \<noteq> []"
  shows "\<exists>out. process_dataframe df limits = Inr out \<and> length out = length df
       \<and> (feq (pd_max (map bod1 df)) (pd_min (map bod31 df)) \<longrightarrow>
            (\<forall>r \<in> set out.
               BODut r \<in> {PInf, NaN} \<and> BODlt r \<in> {PInf, NaN}
               \<and> LIN_BODe r \<in> {PInf, NaN} \<and> LIN_BODi r \<in> {PInf, NaN}
               \<and> BODut_BODeffl r = NaN \<and> BODlt_BODeffl r = NaN \<and> bodp r = NaN
               \<and> \<not> flag_BODut r \<and> \<not> flag_BODlt r \<and> \<not> flag_reduction_bod r
               \<and> \<not> bod_lut_exc r \<and> \<not> bod_max_lim r))
       \<and> (feq (pd_max (map cod1 df)) (pd_min (map cod31 df)) \<longrightarrow>
            (\<forall>r \<in> set out.
               CODut r \<in> {PInf, NaN} \<and> CODlt r \<in> {PInf, NaN}
               \<and> LIN_CODe r \<in> {PInf, NaN} \<and> LIN_CODi r \<in> {PInf, NaN}
               \<and> CODut_CODeffl r = NaN \<and> CODlt_CODeffl r = NaN \<and> codp r = NaN
               \<and> \<not> flag_CODut r \<and> \<not> flag_CODlt r \<and> \<not> flag_reduction_cod r
               \<and> \<not> cod_lut_exc r \<and> \<not> cod_max_lim r))"
proof -
  let ?out = "projr (process_dataframe df limits)"
  have ret: "process_dataframe df limits = Inr ?out"
    using assms by (rule process_dataframe_returns)
  have len: "length ?out = length df"
    using ret by (rule process_dataframe_length)
  have bod: "feq (pd_max (map bod1 df)) (pd_min (map bod31 df)) \<Longrightarrow> r \<in> set ?out \<Longrightarrow>
       BODut r \<in> {PInf, NaN} \<and> BODlt r \<in> {PInf, NaN}
       \<and> LIN_BODe r \<in> {PInf, NaN} \<and> LIN_BODi r \<in> {PInf, NaN}
       \<and> BODut_BODeffl r = NaN \<and> BODlt_BODeffl r = NaN \<and> bodp r = NaN
       \<and> \<not> flag_BODut r \<and> \<not> flag_BODlt r \<and> \<not> flag_reduction_bod r
       \<and> \<not> bod_lut_exc r \<and> \<not> bod_max_lim r" for r
    using zero_range_bod [OF ret, of r] by simp
  have cod: "feq (pd_max (map cod1 df)) (pd_min (map cod31 df)) \<Longrightarrow> r \<in> set ?out \<Longrightarrow>
       CODut r \<in> {PInf, NaN} \<and> CODlt r \<in> {PInf, NaN}
       \<and> LIN_CODe r \<in> {PInf, NaN} \<and> LIN_CODi r \<in> {PInf, NaN}
       \<and> CODut_CODeffl r = NaN \<and> CODlt_CODeffl r = NaN \<and> codp r = NaN
       \<and> \<not> flag_CODut r \<and> \<not> flag_CODlt r \<and> \<not> flag_reduction_cod r
       \<and> \<not> cod_lut_exc r \<and> \<not> cod_max_lim r" for r
    using zero_range_cod [OF ret, of r] by simp
  show ?thesis
    using ret len bod cod by blast
qed

theorem zero_range_raises_nothing_witness:
  "feq (pd_max (map bod1 degenerate_df)) (pd_min (map bod31 degenerate_df))
   \<and> feq (pd_max (map cod1 degenerate_df)) (pd_min (map cod31 degenerate_df))
   \<and> process_dataframe degenerate_df None = Inr degenerate_processed
   \<and> length degenerate_processed = 2
   \<and> map bodp degenerate_processed = [NaN, NaN]
   \<and> map codp degenerate_processed = [NaN, NaN]
   \<and> map flag_BODut degenerate_processed = [False, False]
   \<and> map bod_max_lim degenerate_processed = [False, False]
   \<and> map cod_max_lim degenerate_processed = [False, False]"
proof -
  have ne: "degenerate_df \<noteq> []"
    by (simp add: degenerate_df_def)
  have two: "length xs = 2 \<Longrightarrow> \<forall>x \<in> set xs. f x = v \<Longrightarrow> map f xs = [v, v]" for xs :: "failure_row list" and f :: "failure_row \<Rightarrow> 'b" and v
    by (cases xs; cases "tl xs") auto
  from zero_range_raises_nothing [OF ne, of None] degenerate_returns degenerate_zero_range
  have len: "length degenerate_processed = length degenerate_df"
    and all: "\<forall>r \<in> set degenerate_processed.
       bodp r = NaN \<and> codp r = NaN \<and> flag_BODut r = False \<and> bod_max_lim r = False
       \<and> cod_max_lim r = False"
    by auto
  have len2: "length degenerate_processed = 2"
    using len by (simp add: degenerate_df_def)
  show ?thesis
    using all by (simp add: degenerate_zero_range degenerate_returns len2 two [OF len2])
qed

text \<open>
  On the frame without dynamic range nothing is raised: the upper BOD limit is \<open>+inf\<close>
  on both rows, the linearised BOD effluent is NaN and \<open>+inf\<close>, and both rows are
  classified Compliant.
\<close>

theorem zero_range_is_processed:
  "feq (pd_max (map bod1 degenerate_df)) (pd_min (map bod31 degenerate_df))
   \<and> process_dataframe degenerate_df None = Inr degenerate_processed
   \<and> map BODut degenerate_processed = [PInf, PInf]
   \<and> map LIN_BODe degenerate_processed = [NaN, PInf]
   \<and> fail_type (hd degenerate_processed) = ''Compliant''
   \<and> fail_type (last degenerate_processed) = ''Compliant''"
proof -
  have rows: "hd degenerate_processed \<in> set degenerate_processed"
    "last degenerate_processed \<in> set degenerate_processed"
    by (simp_all add: degenerate_nonempty)
  note b = zero_range_bod [OF degenerate_returns _ degenerate_zero_range(1)]
  note c = zero_range_cod [OF degenerate_returns _ degenerate_zero_range(2)]
  have "fail_type (hd degenerate_processed) = ''Compliant''"
    using b [OF rows(1)] c [OF rows(1)]
    by (simp add: processed_fail_type [OF degenerate_returns rows(1)])
  moreover have "fail_type (last degenerate_processed) = ''Compliant''"
    using b [OF rows(2)] c [OF rows(2)]
    by (simp add: processed_fail_type [OF degenerate_returns rows(2)])
  ultimately show ?thesis
    by (simp add: degenerate_zero_range degenerate_returns degenerate_columns)
qed

section \<open>Non-stationarity score: results\<close>




end
